theory Spec2Isabelle
  imports Main
begin

section \<open>Strings\<close>

text \<open>
  Python strings are modelled as \<open>string\<close> (lists of \<open>char\<close>); a \<open>char\<close> stands for a
  code point below 256, so the model covers Latin-1 command lines.

  \<open>str_split c s\<close> is \<^verbatim>\<open>s.split(c)\<close> for a one-character separator: it keeps empty
  segments and always returns at least one segment.
\<close>

fun str_split :: "char \<Rightarrow> string \<Rightarrow> string list" where
  "str_split c [] = [[]]"
| "str_split c (x # xs) =
     (if x = c then [] # str_split c xs
      else (case str_split c xs of
              [] \<Rightarrow> [[x]]
            | w # ws \<Rightarrow> (x # w) # ws))"

text \<open>\<^verbatim>\<open>str.isspace\<close> on one character: the white-space code points below 256.\<close>

definition isspace :: "char \<Rightarrow> bool" where
  "isspace c = (let n = (of_char c :: nat) in
     (9 \<le> n \<and> n \<le> 13) \<or> (28 \<le> n \<and> n \<le> 32) \<or> n = 133 \<or> n = 160)"

text \<open>\<^verbatim>\<open>s.split()\<close>: split at runs of white space, no empty words.\<close>

fun split_ws_acc :: "string \<Rightarrow> string \<Rightarrow> string list" where
  "split_ws_acc w [] = (if w = [] then [] else [w])"
| "split_ws_acc w (x # xs) =
     (if isspace x then (if w = [] then split_ws_acc [] xs else w # split_ws_acc [] xs)
      else split_ws_acc (w @ [x]) xs)"

definition str_split_ws :: "string \<Rightarrow> string list" where
  "str_split_ws s = split_ws_acc [] s"

text \<open>\<^verbatim>\<open>' '.join(ws)\<close>.\<close>

fun join_sp :: "string list \<Rightarrow> string" where
  "join_sp [] = []"
| "join_sp [w] = w"
| "join_sp (w # ws) = w @ CHR '' '' # join_sp ws"

section \<open>Controllers\<close>

text \<open>
  The four controller classes (\<^verbatim>\<open>FundamentalAnalysisController\<close>,
  \<^verbatim>\<open>FinancialModelingPrepController\<close>, \<^verbatim>\<open>QaController\<close>,
  \<^verbatim>\<open>PredictionTechniquesController\<close>) repeat the same methods with small differences;
  the model has one definition per method, with the class as first argument.
\<close>

datatype controller_kind = Fa | Fmp | Qa | Pred

text \<open>What a controller prints and which outside code it calls, in order.\<close>

datatype event =
    Print string
  | Write string
  | PrintHelp
  | Clear
  | Echo string
  | Prompt
  | Leaf string "string list"

text \<open>
  The attributes of a controller object (\<open>suffix\<close> exists in fa only, \<open>target\<close> and
  \<open>stock\<close> in qa and pred only; the data frame is kept abstract), together with the
  terminal: the lines still to be typed by the user and the events so far.
\<close>

record 'd controller =
  ticker :: string
  start :: string
  interval :: string
  suffix :: string
  target :: string
  stock :: 'd
  queue :: "string list"
  stdin :: "string list"
  out :: "event list"

definition emit :: "event \<Rightarrow> 'd controller \<Rightarrow> 'd controller" where
  "emit e s = s\<lparr>out := out s @ [e]\<rparr>"

text \<open>\<^verbatim>\<open>self.queue.insert(0, x)\<close>.\<close>

definition queue_insert0 :: "string \<Rightarrow> 'd controller \<Rightarrow> 'd controller" where
  "queue_insert0 x s = s\<lparr>queue := x # queue s\<rparr>"

definition CHOICES_universal :: "string list" where
  "CHOICES_universal =
     [''cls'', ''home'', ''h'', ''?'', ''help'', ''q'', ''quit'', ''..'', ''exit'', ''r'', ''reset'']"

fun CHOICES_COMMANDS :: "controller_kind \<Rightarrow> string list" where
  "CHOICES_COMMANDS Fa =
     [''load'', ''analysis'', ''score'', ''warnings'', ''data'', ''income'', ''balance'', ''cash'',
      ''mgmt'', ''info'', ''shrs'', ''sust'', ''cal'', ''web'', ''hq'', ''overview'', ''key'',
      ''income'', ''balance'', ''cash'', ''divs'', ''earnings'', ''fraud'']"
| "CHOICES_COMMANDS Fmp =
     [''profile'', ''quote'', ''enterprise'', ''dcf'', ''income'', ''balance'', ''cash'',
      ''metrics'', ''ratios'', ''growth'']"
| "CHOICES_COMMANDS Qa =
     [''load'', ''pick'', ''raw'', ''summary'', ''hist'', ''cdf'', ''bw'', ''rolling'',
      ''decompose'', ''cusum'', ''acf'', ''spread'', ''quantile'', ''skew'', ''kurtosis'',
      ''normality'', ''qqplot'', ''unitroot'', ''goodness'', ''unitroot'', ''capm'']"
| "CHOICES_COMMANDS Pred =
     [''load'', ''pick'', ''ets'', ''knn'', ''regression'', ''arima'', ''mlp'', ''rnn'', ''lstm'',
      ''conv1d'', ''mc'']"

fun CHOICES_MENUS :: "controller_kind \<Rightarrow> string list" where
  "CHOICES_MENUS Fa = [''fmp'']"
| "CHOICES_MENUS k = []"

definition CHOICES :: "controller_kind \<Rightarrow> string list" where
  "CHOICES k = CHOICES_universal @ CHOICES_COMMANDS k @ CHOICES_MENUS k"

subsection \<open>Universal command handlers\<close>

definition call_cls :: "controller_kind \<Rightarrow> 'd controller \<Rightarrow> 'd controller" where
  "call_cls k s = emit Clear s"

fun call_home :: "controller_kind \<Rightarrow> 'd controller \<Rightarrow> 'd controller" where
  "call_home Fmp s = queue_insert0 ''quit'' (queue_insert0 ''quit'' (queue_insert0 ''quit'' s))"
| "call_home k s = queue_insert0 ''quit'' (queue_insert0 ''quit'' s)"

definition call_help :: "controller_kind \<Rightarrow> 'd controller \<Rightarrow> 'd controller" where
  "call_help k s = emit PrintHelp s"

fun call_quit :: "controller_kind \<Rightarrow> 'd controller \<Rightarrow> 'd controller" where
  "call_quit Fmp s = queue_insert0 ''quit'' s"
| "call_quit k s = queue_insert0 ''quit'' (emit (Print '''') s)"

fun call_exit :: "controller_kind \<Rightarrow> 'd controller \<Rightarrow> 'd controller" where
  "call_exit Fmp s =
     queue_insert0 ''quit'' (queue_insert0 ''quit'' (queue_insert0 ''quit'' (queue_insert0 ''quit'' s)))"
| "call_exit k s = queue_insert0 ''quit'' (queue_insert0 ''quit'' (queue_insert0 ''quit'' s))"

text \<open>The conditional \<^verbatim>\<open>if self.ticker: self.queue.insert(0, f"load {self.ticker}")\<close>.\<close>

definition insert_load :: "'d controller \<Rightarrow> 'd controller" where
  "insert_load s = (if ticker s \<noteq> [] then queue_insert0 (''load '' @ ticker s) s else s)"

fun call_reset :: "controller_kind \<Rightarrow> 'd controller \<Rightarrow> 'd controller" where
  "call_reset Fa s =
     queue_insert0 ''quit'' (queue_insert0 ''quit'' (queue_insert0 ''reset''
       (queue_insert0 ''stocks'' (insert_load (queue_insert0 ''fa'' s)))))"
| "call_reset Fmp s =
     queue_insert0 ''quit'' (queue_insert0 ''quit'' (queue_insert0 ''quit'' (queue_insert0 ''reset''
       (queue_insert0 ''stocks'' (insert_load (queue_insert0 ''fa'' (queue_insert0 ''fmp'' s)))))))"
| "call_reset Qa s =
     queue_insert0 ''quit'' (queue_insert0 ''quit'' (queue_insert0 ''reset''
       (queue_insert0 ''stocks'' (insert_load (queue_insert0 ''qa'' s)))))"
| "call_reset Pred s =
     queue_insert0 ''quit'' (queue_insert0 ''quit'' (queue_insert0 ''reset''
       (queue_insert0 ''stocks'' (insert_load (queue_insert0 ''pred'' s)))))"

text \<open>
  The alias redirection of \<^verbatim>\<open>switch\<close>:
  \<^verbatim>\<open>if cmd: if cmd in ("..", "q"): cmd = "quit" elif cmd in ("?", "h"): cmd = "help"
  elif cmd == "r": cmd = "reset"\<close>.
\<close>

definition resolve_alias :: "string \<Rightarrow> string" where
  "resolve_alias cmd =
     (if cmd = [] then cmd
      else if cmd = ''..'' \<or> cmd = ''q'' then ''quit''
      else if cmd = ''?'' \<or> cmd = ''h'' then ''help''
      else if cmd = ''r'' then ''reset''
      else cmd)"

section \<open>The command parser\<close>

text \<open>
  Every controller builds \<^verbatim>\<open>argparse.ArgumentParser(add_help=False)\<close> with the single
  positional argument \<^verbatim>\<open>cmd\<close> restricted to \<^verbatim>\<open>CHOICES\<close>, and \<^verbatim>\<open>switch\<close> calls
  \<^verbatim>\<open>parse_known_args\<close> on the words of the line. The library is modelled for exactly
  this parser: no option is registered, so every word that looks like an option is
  unknown and goes to the extra arguments. \<open>None\<close> stands for \<^verbatim>\<open>SystemExit\<close>, which
  \<^verbatim>\<open>parser.error\<close> raises.
\<close>

datatype arg_class = ClsO | ClsA | ClsDash

definition isdigit :: "char \<Rightarrow> bool" where
  "isdigit c = (let n = (of_char c :: nat) in 48 \<le> n \<and> n \<le> 57)"

text \<open>The regular expression \<^verbatim>\<open>^-\d+$|^-\d*\.\d+$\<close> of negative numbers.\<close>

definition negative_number :: "string \<Rightarrow> bool" where
  "negative_number t =
     (case t of
        [] \<Rightarrow> False
      | c # r \<Rightarrow>
          c = CHR ''-'' \<and>
          (let ds = takeWhile isdigit r; e = dropWhile isdigit r in
             (ds \<noteq> [] \<and> e = []) \<or>
             (case e of
                [] \<Rightarrow> False
              | p # f \<Rightarrow> p = CHR ''.'' \<and> f \<noteq> [] \<and> list_all isdigit f)))"

text \<open>
  \<^verbatim>\<open>_parse_optional\<close> with no registered option: \<open>True\<close> when the word is taken for an
  (unknown) option.
\<close>

definition parse_optional :: "string \<Rightarrow> bool" where
  "parse_optional t =
     (case t of
        [] \<Rightarrow> False
      | c # r \<Rightarrow>
          if c \<noteq> CHR ''-'' then False
          else if r = [] then False
          else if negative_number t then False
          else if CHR '' '' \<in> set t then False
          else True)"

text \<open>The pattern string: \<open>--\<close> turns every later word into an argument.\<close>

fun arg_strings_pattern :: "string list \<Rightarrow> arg_class list" where
  "arg_strings_pattern [] = []"
| "arg_strings_pattern (t # ts) =
     (if t = ''--'' then ClsDash # map (\<lambda>_. ClsA) ts
      else (if parse_optional t then ClsO else ClsA) # arg_strings_pattern ts)"

text \<open>
  How many words the positional takes at the head of a pattern: the length of the match of
  \<^verbatim>\<open>(-*A-*)\<close>, or 0 when it does not match.
\<close>

definition match_positional :: "arg_class list \<Rightarrow> nat" where
  "match_positional p =
     (case dropWhile (\<lambda>c. c = ClsDash) p of
        ClsA # r \<Rightarrow>
          length (takeWhile (\<lambda>c. c = ClsDash) p) + 1 + length (takeWhile (\<lambda>c. c = ClsDash) r)
      | _ \<Rightarrow> 0)"

text \<open>
  \<^verbatim>\<open>_get_values\<close> and \<^verbatim>\<open>_check_value\<close> for \<^verbatim>\<open>cmd\<close>: the first \<open>--\<close> is dropped, the one
  word left must be a choice.
\<close>

definition get_values :: "string list \<Rightarrow> string list \<Rightarrow> string option" where
  "get_values choices args =
     (case remove1 ''--'' args of
        [v] \<Rightarrow> if v \<in> set choices then Some v else None
      | _ \<Rightarrow> None)"

text \<open>
  \<^verbatim>\<open>consume_positionals\<close>: \<open>seen\<close> is the value of \<^verbatim>\<open>cmd\<close> once it has been taken (the list
  of positionals is then empty and nothing more is consumed). The result is the new
  \<open>seen\<close> and the number of words consumed; \<open>None\<close> is the parser's error.
\<close>

definition consume_positionals ::
  "string list \<Rightarrow> string option \<Rightarrow> (arg_class \<times> string) list \<Rightarrow> (string option \<times> nat) option" where
  "consume_positionals choices seen rest =
     (case seen of
        Some v \<Rightarrow> Some (seen, 0)
      | None \<Rightarrow>
          (let n = match_positional (map fst rest) in
             if n = 0 then Some (None, 0)
             else (case get_values choices (map snd (take n rest)) of
                     None \<Rightarrow> None
                   | Some v \<Rightarrow> Some (Some v, n))))"

text \<open>
  The main loop of \<^verbatim>\<open>_parse_known_args\<close> on the words from \<^verbatim>\<open>start_index\<close> on: while an
  option is left, consume positionals before it, move the words up to it to the extras,
  then the (unknown) option itself; at the end consume positionals once more, move the
  rest to the extras and fail when \<^verbatim>\<open>cmd\<close> is missing.
\<close>

function parse_loop ::
  "string list \<Rightarrow> string option \<Rightarrow> string list \<Rightarrow> (arg_class \<times> string) list
   \<Rightarrow> (string \<times> string list) option" where
  "parse_loop choices seen extras rest =
     (if ClsO \<in> set (map fst rest) then
        (let n = length (takeWhile (\<lambda>p. fst p \<noteq> ClsO) rest) in
           if n \<noteq> 0 then
             (case consume_positionals choices seen rest of
                None \<Rightarrow> None
              | Some (seen', k) \<Rightarrow>
                  if k > 0 then parse_loop choices seen' extras (drop k rest)
                  else parse_loop choices seen'
                         (extras @ map snd (take n rest) @ [snd (rest ! n)]) (drop (Suc n) rest))
           else parse_loop choices seen (extras @ [snd (hd rest)]) (tl rest))
      else
        (case consume_positionals choices seen rest of
           None \<Rightarrow> None
         | Some (seen', k) \<Rightarrow>
             (case seen' of
                None \<Rightarrow> None
              | Some v \<Rightarrow> Some (v, extras @ map snd (drop k rest)))))"
  by pat_completeness auto
termination
  by (relation "measure (\<lambda>(choices, seen, extras, rest). length rest)")
     (auto simp: less_Suc_eq_le intro: diff_less)

definition parse_known_args :: "string list \<Rightarrow> string list \<Rightarrow> (string \<times> string list) option" where
  "parse_known_args choices arg_strings =
     parse_loop choices None [] (zip (arg_strings_pattern arg_strings) arg_strings)"

section \<open>Closest match\<close>

text \<open>
  \<^verbatim>\<open>difflib.get_close_matches(word, possibilities, n=1, cutoff=0.7)\<close>, the call of every
  menu loop. The library compares \<open>a\<close> = a possibility with \<open>b\<close> = the word. A character
  of \<open>b\<close> is popular, and left out of the index \<^verbatim>\<open>b2j\<close>, when \<open>b\<close> has at least 200
  characters and the character fills more than 1\% of it plus one.
\<close>

definition popular :: "string \<Rightarrow> char \<Rightarrow> bool" where
  "popular b c = (200 \<le> length b \<and> length b div 100 + 1 < count_list b c)"

text \<open>
  One row of the table \<^verbatim>\<open>j2len\<close> of \<^verbatim>\<open>find_longest_match\<close>: entry \<open>j\<close> is the length of
  the longest match ending with the current character of \<open>a\<close> and \<open>b[j]\<close>, 0 when they
  differ (the library keeps no entry then).
\<close>

definition j2len_row :: "(char \<Rightarrow> bool) \<Rightarrow> char \<Rightarrow> string \<Rightarrow> nat list \<Rightarrow> nat list" where
  "j2len_row pop x b prev =
     map (\<lambda>(y, p). if y = x \<and> \<not> pop y then p + 1 else 0) (zip b (0 # prev))"

text \<open>The update of \<^verbatim>\<open>besti, bestj, bestsize\<close> along one row, for \<open>j\<close> ascending.\<close>

fun scan_row :: "nat \<Rightarrow> nat \<Rightarrow> nat list \<Rightarrow> nat \<times> nat \<times> nat \<Rightarrow> nat \<times> nat \<times> nat" where
  "scan_row i j [] best = best"
| "scan_row i j (k # ks) (besti, bestj, bestsize) =
     scan_row i (Suc j) ks
       (if bestsize < k then (i + 1 - k, j + 1 - k, k) else (besti, bestj, bestsize))"

fun flm_rows ::
  "(char \<Rightarrow> bool) \<Rightarrow> string \<Rightarrow> nat \<Rightarrow> string \<Rightarrow> nat list \<Rightarrow> nat \<times> nat \<times> nat \<Rightarrow> nat \<times> nat \<times> nat" where
  "flm_rows pop b i [] prev best = best"
| "flm_rows pop b i (x # xs) prev best =
     (let row = j2len_row pop x b prev in flm_rows pop b (Suc i) xs row (scan_row i 0 row best))"

text \<open>
  The two loops that extend the best block by equal characters on each side (no character
  is junk, so the two loops over junk do nothing).
\<close>

fun extend_left :: "string \<Rightarrow> string \<Rightarrow> nat \<Rightarrow> nat \<Rightarrow> nat \<Rightarrow> nat \<times> nat \<times> nat" where
  "extend_left a b (Suc i) (Suc j) k =
     (if a ! i = b ! j then extend_left a b i j (Suc k) else (Suc i, Suc j, k))"
| "extend_left a b i j k = (i, j, k)"

function extend_right :: "string \<Rightarrow> string \<Rightarrow> nat \<Rightarrow> nat \<Rightarrow> nat \<Rightarrow> nat \<times> nat \<times> nat" where
  "extend_right a b i j k =
     (if i + k < length a \<and> j + k < length b \<and> a ! (i + k) = b ! (j + k)
      then extend_right a b i j (Suc k) else (i, j, k))"
  by pat_completeness auto
termination
  by (relation "measure (\<lambda>(a, b, i, j, k). length a - (i + k))") auto

text \<open>
  \<^verbatim>\<open>find_longest_match\<close> on the slices \<open>a\<close> and \<open>b\<close> (indices count from the start of
  the slices); \<open>pop\<close> is computed from the whole word.
\<close>

definition find_longest_match :: "(char \<Rightarrow> bool) \<Rightarrow> string \<Rightarrow> string \<Rightarrow> nat \<times> nat \<times> nat" where
  "find_longest_match pop a b =
     (case flm_rows pop b 0 a (replicate (length b) 0) (0, 0, 0) of
        (i, j, k) \<Rightarrow> (case extend_left a b i j k of (i', j', k') \<Rightarrow> extend_right a b i' j' k'))"

lemma j2len_row_le:
  assumes "list_all (\<lambda>p. p \<le> n) prev"
  shows "list_all (\<lambda>p. p \<le> Suc n) (j2len_row pop x b prev)"
proof -
  have "\<And>y p. (y, p) \<in> set (zip b (0 # prev)) \<Longrightarrow> p \<le> n"
    using assms by (auto simp: list_all_iff dest!: set_zip_rightD)
  then show ?thesis
    by (auto simp: j2len_row_def list_all_iff)
qed

lemma scan_row_le:
  assumes "list_all (\<lambda>p. p \<le> Suc i) row" "fst best + snd (snd best) \<le> Suc i"
  shows "fst (scan_row i j row best) + snd (snd (scan_row i j row best)) \<le> Suc i"
  using assms
proof (induction row arbitrary: j best)
  case Nil
  then show ?case by simp
next
  case (Cons k ks)
  obtain bi bj bs where b: "best = (bi, bj, bs)" by (cases best)
  from Cons.prems have "k \<le> Suc i" by simp
  with Cons show ?case unfolding b by simp
qed

lemma flm_rows_le:
  assumes "list_all (\<lambda>p. p \<le> i) prev" "fst best + snd (snd best) \<le> i"
  shows "fst (flm_rows pop b i a prev best) + snd (snd (flm_rows pop b i a prev best)) \<le> i + length a"
  using assms
proof (induction a arbitrary: i prev best)
  case Nil
  then show ?case by simp
next
  case (Cons x xs)
  let ?row = "j2len_row pop x b prev"
  have r: "list_all (\<lambda>p. p \<le> Suc i) ?row"
    using Cons.prems(1) by (rule j2len_row_le)
  have "fst best + snd (snd best) \<le> Suc i" using Cons.prems(2) by simp
  with r have s: "fst (scan_row i 0 ?row best) + snd (snd (scan_row i 0 ?row best)) \<le> Suc i"
    by (rule scan_row_le)
  from Cons.IH [OF r s] show ?case by (simp add: Let_def)
qed

lemma extend_left_le:
  "fst (extend_left a b i j k) + snd (snd (extend_left a b i j k)) = i + k"
  by (induction a b i j k rule: extend_left.induct) auto

lemma extend_right_le:
  "i + k \<le> length a \<Longrightarrow>
   fst (extend_right a b i j k) + snd (snd (extend_right a b i j k)) \<le> length a"
proof (induction a b i j k rule: extend_right.induct)
  case (1 a b i j k)
  then show ?case by (subst (1 2) extend_right.simps) auto
qed

lemma find_longest_match_le:
  assumes "find_longest_match pop a b = (i, j, k)"
  shows "i + k \<le> length a"
proof -
  obtain i0 j0 k0 where f: "flm_rows pop b 0 a (replicate (length b) 0) (0, 0, 0) = (i0, j0, k0)"
    by (cases "flm_rows pop b 0 a (replicate (length b) 0) (0, 0, 0)")
  have "fst (flm_rows pop b 0 a (replicate (length b) 0) (0, 0, 0))
        + snd (snd (flm_rows pop b 0 a (replicate (length b) 0) (0, 0, 0))) \<le> 0 + length a"
    by (rule flm_rows_le) (simp_all add: list_all_iff)
  with f have a: "i0 + k0 \<le> length a" by simp
  obtain i1 j1 k1 where l: "extend_left a b i0 j0 k0 = (i1, j1, k1)"
    by (cases "extend_left a b i0 j0 k0")
  from extend_left_le [of a b i0 j0 k0] l a have b: "i1 + k1 \<le> length a" by simp
  from assms f l have "extend_right a b i1 j1 k1 = (i, j, k)"
    by (simp add: find_longest_match_def)
  with extend_right_le [OF b, of b j1] show ?thesis by simp
qed

text \<open>
  The number of matched characters: the sum of the sizes of \<^verbatim>\<open>get_matching_blocks\<close>, which
  takes the longest block and goes on to the left and to the right of it.
\<close>

function count_matches :: "(char \<Rightarrow> bool) \<Rightarrow> string \<Rightarrow> string \<Rightarrow> nat" where
  "count_matches pop a b =
     (case find_longest_match pop a b of
        (i, j, k) \<Rightarrow>
          if k = 0 then 0
          else k
            + (if 0 < i \<and> 0 < j then count_matches pop (take i a) (take j b) else 0)
            + (if i + k < length a \<and> j + k < length b
               then count_matches pop (drop (i + k) a) (drop (j + k) b) else 0))"
  by pat_completeness auto
termination
  by (relation "measure (\<lambda>(pop, a, b). length a)")
     (auto dest!: find_longest_match_le [OF sym])

text \<open>
  The three ratios are \<^verbatim>\<open>2.0 * matches / length\<close> with \<open>length = len(a) + len(b)\<close>, or
  1.0 when the length is 0; they are doubles in the library. The model keeps each ratio as
  a fraction (numerator, denominator) and compares fractions exactly, which agrees with
  the doubles for any command line of realistic length (two different such fractions are
  further apart than the rounding, and 0.7 is the double nearest to 7/10).
\<close>

definition calculate_ratio :: "nat \<Rightarrow> nat \<Rightarrow> nat \<times> nat" where
  "calculate_ratio matches len = (if len \<noteq> 0 then (2 * matches, len) else (1, 1))"

definition frac_less :: "nat \<times> nat \<Rightarrow> nat \<times> nat \<Rightarrow> bool" where
  "frac_less p q = (fst p * snd q < fst q * snd p)"

definition frac_eq :: "nat \<times> nat \<Rightarrow> nat \<times> nat \<Rightarrow> bool" where
  "frac_eq p q = (fst p * snd q = fst q * snd p)"

text \<open>\<^verbatim>\<open>r >= cutoff\<close> for the cutoff 0.7.\<close>

definition reaches_cutoff :: "nat \<times> nat \<Rightarrow> bool" where
  "reaches_cutoff r = (7 * snd r \<le> 10 * fst r)"

definition ratio :: "string \<Rightarrow> string \<Rightarrow> nat \<times> nat" where
  "ratio a b = calculate_ratio (count_matches (popular b) a b) (length a + length b)"

text \<open>\<^verbatim>\<open>quick_ratio\<close> counts the characters common to both strings as multisets.\<close>

fun quick_matches :: "string \<Rightarrow> string \<Rightarrow> nat" where
  "quick_matches [] b = 0"
| "quick_matches (x # xs) b =
     (if x \<in> set b then Suc (quick_matches xs (remove1 x b)) else quick_matches xs b)"

definition quick_ratio :: "string \<Rightarrow> string \<Rightarrow> nat \<times> nat" where
  "quick_ratio a b = calculate_ratio (quick_matches a b) (length a + length b)"

definition real_quick_ratio :: "string \<Rightarrow> string \<Rightarrow> nat \<times> nat" where
  "real_quick_ratio a b = calculate_ratio (min (length a) (length b)) (length a + length b)"

text \<open>Python's order on strings, by code point.\<close>

fun str_less :: "string \<Rightarrow> string \<Rightarrow> bool" where
  "str_less [] [] = False"
| "str_less [] (y # ys) = True"
| "str_less (x # xs) [] = False"
| "str_less (x # xs) (y # ys) =
     (if x = y then str_less xs ys else (of_char x :: nat) < of_char y)"

text \<open>Python's order on the pairs \<^verbatim>\<open>(score, x)\<close>.\<close>

definition pair_less :: "(nat \<times> nat) \<times> string \<Rightarrow> (nat \<times> nat) \<times> string \<Rightarrow> bool" where
  "pair_less p q =
     (if frac_eq (fst p) (fst q) then str_less (snd p) (snd q) else frac_less (fst p) (fst q))"

text \<open>
  The loop over the possibilities, then \<^verbatim>\<open>heapq.nlargest(1, result)\<close>, which is the
  maximum of the list (the first of equal maxima) or nothing for the empty list.
\<close>

definition close_results :: "string \<Rightarrow> string list \<Rightarrow> ((nat \<times> nat) \<times> string) list" where
  "close_results word possibilities =
     map (\<lambda>x. (ratio x word, x))
       (filter (\<lambda>x. reaches_cutoff (real_quick_ratio x word) \<and>
                    reaches_cutoff (quick_ratio x word) \<and>
                    reaches_cutoff (ratio x word)) possibilities)"

definition get_close_matches :: "string \<Rightarrow> string list \<Rightarrow> string list" where
  "get_close_matches word possibilities =
     (case close_results word possibilities of
        [] \<Rightarrow> []
      | r # rs \<Rightarrow> [snd (foldl (\<lambda>best c. if pair_less best c then c else best) r rs)])"

text \<open>
  The location shown in the prompt of each menu, \<^verbatim>\<open>f"{get_flair()} /stocks/fa/ $ "\<close>, and
  the number of menus from the root down to it.
\<close>

fun prompt_path :: "controller_kind \<Rightarrow> string" where
  "prompt_path Fa = ''/stocks/fa/''"
| "prompt_path Fmp = ''/stocks/fa/fmp/''"
| "prompt_path Qa = ''/stocks/qa/''"
| "prompt_path Pred = ''/stocks/pred/''"

definition menu_chain :: "controller_kind \<Rightarrow> string list" where
  "menu_chain k = filter (\<lambda>w. w \<noteq> []) (str_split CHR ''/'' (prompt_path k))"

definition nesting_depth :: "controller_kind \<Rightarrow> nat" where
  "nesting_depth k = length (menu_chain k)"


section \<open>Dispatch\<close>

text \<open>
  How a call of \<^verbatim>\<open>switch\<close> or of a handler ends: it returns, it raises \<^verbatim>\<open>SystemExit\<close>, or
  (through a nested menu that reads past the end of the input) \<^verbatim>\<open>EOFError\<close>.
\<close>

datatype signal = Returned | SystemExit | EOFError

text \<open>How a menu ends: \<^verbatim>\<open>return\<close> of the remaining queue, or \<^verbatim>\<open>EOFError\<close>.\<close>

datatype menu_exit = Return "string list" | Eof

text \<open>
  The commands that reach a collaborator outside the controller (data providers, plots,
  models) are not part of the model. Their effect is the parameter \<open>ext\<close>: for the
  controller class, the command name and its arguments it gives the controller after the
  call and whether the call ended in \<^verbatim>\<open>SystemExit\<close>. No such handler touches
  \<^verbatim>\<open>self.queue\<close> in the source, so the queue and the terminal are kept and the call is
  recorded as a \<open>Leaf\<close> event.
\<close>

type_synonym 'd ext =
  "controller_kind \<Rightarrow> string \<Rightarrow> string list \<Rightarrow> 'd controller \<Rightarrow> bool \<times> 'd controller"

type_synonym 'd submenu = "'d controller \<Rightarrow> (menu_exit \<times> 'd controller) option"

text \<open>The methods \<^verbatim>\<open>call_<name>\<close> of each class apart from the universal ones and \<^verbatim>\<open>call_fmp\<close>.\<close>

fun leaf_handlers :: "controller_kind \<Rightarrow> string list" where
  "leaf_handlers Fa =
     [''load'', ''analysis'', ''mgmt'', ''data'', ''score'', ''info'', ''shrs'', ''sust'', ''cal'',
      ''web'', ''hq'', ''divs'', ''overview'', ''key'', ''income'', ''balance'', ''cash'',
      ''earnings'', ''fraud'', ''dcf'', ''warnings'']"
| "leaf_handlers Fmp =
     [''profile'', ''quote'', ''enterprise'', ''dcf'', ''income'', ''balance'', ''cash'',
      ''metrics'', ''ratios'', ''growth'']"
| "leaf_handlers Qa =
     [''load'', ''pick'', ''raw'', ''summary'', ''hist'', ''cdf'', ''bw'', ''decompose'', ''cusum'',
      ''acf'', ''rolling'', ''spread'', ''quantile'', ''skew'', ''kurtosis'', ''normality'',
      ''qqplot'', ''unitroot'', ''capm'']"
| "leaf_handlers Pred =
     [''load'', ''pick'', ''ets'', ''knn'', ''regression'', ''arima'', ''mlp'', ''rnn'', ''lstm'',
      ''conv1d'', ''mc'']"

definition call_leaf ::
  "'d ext \<Rightarrow> controller_kind \<Rightarrow> string \<Rightarrow> string list \<Rightarrow> 'd controller \<Rightarrow> signal \<times> 'd controller" where
  "call_leaf ext k cmd other_args s =
     (case ext k cmd other_args s of
        (exits, s') \<Rightarrow>
          (if exits then SystemExit else Returned,
           s'\<lparr>queue := queue s, stdin := stdin s, out := out s @ [Leaf cmd other_args]\<rparr>))"

text \<open>
  \<^verbatim>\<open>call_fmp\<close> of the fa controller: \<^verbatim>\<open>self.queue = fmp_controller.menu(self.ticker,
  self.start, self.interval, self.queue)\<close>. The nested menu \<open>sub\<close> works on the same
  terminal; \<open>None\<close> is a nested menu that never returns.
\<close>

definition call_fmp :: "'d submenu \<Rightarrow> 'd controller \<Rightarrow> (signal \<times> 'd controller) option" where
  "call_fmp sub s =
     (case sub s of
        None \<Rightarrow> None
      | Some (Return q, c) \<Rightarrow> Some (Returned, s\<lparr>queue := q, stdin := stdin c, out := out c\<rparr>)
      | Some (Eof, c) \<Rightarrow> Some (EOFError, s\<lparr>stdin := stdin c, out := out c\<rparr>))"

text \<open>
  \<^verbatim>\<open>getattr(self, "call_" + cmd, lambda _: "Command not recognized!")(other_args)\<close>: a name
  without a method does nothing.
\<close>

definition dispatch ::
  "'d ext \<Rightarrow> 'd submenu \<Rightarrow> controller_kind \<Rightarrow> string \<Rightarrow> string list \<Rightarrow> 'd controller
   \<Rightarrow> (signal \<times> 'd controller) option" where
  "dispatch ext sub k cmd other_args s =
     (if cmd = ''cls'' then Some (Returned, call_cls k s)
      else if cmd = ''home'' then Some (Returned, call_home k s)
      else if cmd = ''help'' then Some (Returned, call_help k s)
      else if cmd = ''quit'' then Some (Returned, call_quit k s)
      else if cmd = ''exit'' then Some (Returned, call_exit k s)
      else if cmd = ''reset'' then Some (Returned, call_reset k s)
      else if k = Fa \<and> cmd = ''fmp'' then call_fmp sub s
      else if cmd \<in> set (leaf_handlers k) then Some (call_leaf ext k cmd other_args s)
      else Some (Returned, s))"

text \<open>
  The second half of \<^verbatim>\<open>switch\<close>: parse the words of the line, redirect the aliases, call
  the handler.
\<close>

definition execute ::
  "'d ext \<Rightarrow> 'd submenu \<Rightarrow> controller_kind \<Rightarrow> string \<Rightarrow> 'd controller
   \<Rightarrow> (signal \<times> 'd controller) option" where
  "execute ext sub k an_input s =
     (case parse_known_args (CHOICES k) (str_split_ws an_input) of
        None \<Rightarrow> Some (SystemExit, s)
      | Some (cmd, other_args) \<Rightarrow> dispatch ext sub k (resolve_alias cmd) other_args s)"

text \<open>
  The loop \<^verbatim>\<open>for cmd in actions[1:][::-1]: if cmd: self.queue.insert(0, cmd)\<close>.
\<close>

definition enqueue_actions :: "string list \<Rightarrow> 'd controller \<Rightarrow> 'd controller" where
  "enqueue_actions actions s =
     foldl (\<lambda>s cmd. if cmd \<noteq> [] then queue_insert0 cmd s else s) s (rev (tl actions))"

definition switch ::
  "'d ext \<Rightarrow> 'd submenu \<Rightarrow> controller_kind \<Rightarrow> string \<Rightarrow> 'd controller
   \<Rightarrow> (signal \<times> 'd controller) option" where
  "switch ext sub k an_input s =
     (if an_input = [] then Some (Returned, emit (Print []) s)
      else if CHR ''/'' \<in> set an_input then
        (let actions = str_split CHR ''/'' an_input in
           execute ext sub k (if hd actions = [] then ''home'' else hd actions)
             (enqueue_actions actions s))
      else execute ext sub k an_input s)"

section \<open>The menu loop\<close>

text \<open>The menu named in the message about a command that does not exist.\<close>

fun menu_label :: "controller_kind \<Rightarrow> string" where
  "menu_label Fa = ''/stocks/fa''"
| "menu_label Qa = ''/stocks/qa''"
| "menu_label Fmp = ''/stocks/options''"
| "menu_label Pred = ''/stocks/options''"

definition not_found_message :: "controller_kind \<Rightarrow> string \<Rightarrow> string" where
  "not_found_message k an_input =
     [CHR 0x0A] @ ''The command '' @ [CHR 0x27] @ an_input @ [CHR 0x27]
       @ '' doesn't exist on the '' @ menu_label k @ '' menu.''"

definition replacing_message :: "string \<Rightarrow> string" where
  "replacing_message an_input = '' Replacing by '' @ [CHR 0x27] @ an_input @ [CHR 0x27] @ ''.''"

text \<open>What one pass through the body of \<^verbatim>\<open>while True\<close> leads to.\<close>

datatype 'd turn = Leave menu_exit "'d controller" | Again string "'d controller"

text \<open>
  The branch \<^verbatim>\<open>except SystemExit\<close>. In fa, fmp and pred the candidate line is compared with
  the input and then the input itself is put back; in qa the comparison is made for a
  line with a space only, the candidate is put back, and nothing is cleared when there is
  no close match.
\<close>

definition similar_cmd :: "controller_kind \<Rightarrow> string \<Rightarrow> string list" where
  "similar_cmd k an_input =
     get_close_matches
       (if CHR '' '' \<in> set an_input then hd (str_split CHR '' '' an_input) else an_input)
       (CHOICES k)"

definition candidate_input :: "string \<Rightarrow> string \<Rightarrow> string" where
  "candidate_input m an_input = m @ '' '' @ join_sp (tl (str_split CHR '' '' an_input))"

definition discard :: "'d controller \<Rightarrow> 'd turn" where
  "discard s = Again [] ((emit (Print [CHR 0x0A]) s)\<lparr>queue := []\<rparr>)"

definition replace_by :: "string \<Rightarrow> 'd controller \<Rightarrow> 'd turn" where
  "replace_by an_input s =
     Again an_input (queue_insert0 an_input (emit (Print (replacing_message an_input)) s))"

definition recover :: "controller_kind \<Rightarrow> string \<Rightarrow> 'd controller \<Rightarrow> 'd turn" where
  "recover k an_input s =
     (let s1 = emit (Write (not_found_message k an_input)) s in
        case similar_cmd k an_input of
          [] \<Rightarrow>
            if k = Qa then Again an_input (emit (Print [CHR 0x0A]) s1)
            else discard s1
        | m # ms \<Rightarrow>
            if k = Qa then
              (if CHR '' '' \<in> set an_input then
                 (if candidate_input m an_input = an_input then discard s1
                  else replace_by (candidate_input m an_input) s1)
               else replace_by m s1)
            else
              (if (if CHR '' '' \<in> set an_input then candidate_input m an_input else m) = an_input
               then discard s1
               else replace_by an_input s1))"

text \<open>\<^verbatim>\<open>try: queue = switch(an_input)\<close> with its \<^verbatim>\<open>except\<close> branch.\<close>

definition process ::
  "'d ext \<Rightarrow> 'd submenu \<Rightarrow> controller_kind \<Rightarrow> string \<Rightarrow> 'd controller \<Rightarrow> 'd turn option" where
  "process ext sub k an_input s =
     (case switch ext sub k an_input s of
        None \<Rightarrow> None
      | Some (Returned, s') \<Rightarrow> Some (Again an_input s')
      | Some (SystemExit, s') \<Rightarrow> Some (recover k an_input s')
      | Some (EOFError, s') \<Rightarrow> Some (Leave Eof s'))"

definition is_quit_token :: "string \<Rightarrow> bool" where
  "is_quit_token c = (c = ''q'' \<or> c = ''..'' \<or> c = ''quit'')"

text \<open>
  One pass through the loop body; \<open>an_input\<close> is the variable of that name as the previous
  pass left it. Reading a line when none is left raises \<^verbatim>\<open>EOFError\<close>.
\<close>

definition menu_turn ::
  "'d ext \<Rightarrow> 'd submenu \<Rightarrow> controller_kind \<Rightarrow> string \<Rightarrow> 'd controller \<Rightarrow> 'd turn option" where
  "menu_turn ext sub k an_input s =
     (if queue s \<noteq> [] \<and> 0 < length (queue s) then
        (if is_quit_token (queue s ! 0) then
           (let s1 = (if k = Qa then emit (Print []) s else s) in
              if 1 < length (queue s) then Some (Leave (Return (drop 1 (queue s))) s1)
              else Some (Leave (Return []) s1))
         else
           (let an_input = queue s ! 0;
                s1 = s\<lparr>queue := drop 1 (queue s)\<rparr>;
                s2 = (if an_input \<noteq> [] \<and> hd (str_split CHR '' '' an_input) \<in> set (CHOICES_COMMANDS k)
                      then emit (Echo an_input) s1 else s1)
            in process ext sub k an_input s2))
      else
        (let s1 = (if an_input = ''HELP_ME'' then emit PrintHelp s else s) in
           case stdin s1 of
             [] \<Rightarrow> Some (Leave Eof (emit Prompt s1))
           | line # lines \<Rightarrow> process ext sub k line ((emit Prompt s1)\<lparr>stdin := lines\<rparr>)))"

text \<open>The loop \<^verbatim>\<open>while True\<close>; \<open>None\<close> is a loop that never ends.\<close>

partial_function (option) menu_loop ::
  "'d ext \<Rightarrow> 'd submenu \<Rightarrow> controller_kind \<Rightarrow> string \<Rightarrow> 'd controller
   \<Rightarrow> (menu_exit \<times> 'd controller) option" where
  "menu_loop ext sub k an_input s =
     Option.bind (menu_turn ext sub k an_input s)
       (\<lambda>t. case t of
               Leave e s' \<Rightarrow> Some (e, s')
             | Again an_input' s' \<Rightarrow> menu_loop ext sub k an_input' s')"

declare menu_loop.simps [code]

text \<open>
  The constructors: fa joins the exchange suffix to the ticker, qa and pred choose their
  target column; an empty or missing queue becomes the empty list. The function
  \<^verbatim>\<open>menu\<close> of each module builds the controller and runs the loop from \<^verbatim>\<open>"HELP_ME"\<close>.
\<close>

definition init_controller :: "controller_kind \<Rightarrow> 'd controller \<Rightarrow> 'd controller" where
  "init_controller k s =
     s\<lparr>ticker := (if k = Fa \<and> suffix s \<noteq> [] then ticker s @ ''.'' @ suffix s else ticker s),
       target := (if k = Qa then ''Returns'' else if k = Pred then ''AdjClose'' else target s)\<rparr>"

definition no_submenu :: "'d submenu" where
  "no_submenu s = Some (Return (queue s), s)"

definition fmp_menu :: "'d ext \<Rightarrow> 'd controller \<Rightarrow> (menu_exit \<times> 'd controller) option" where
  "fmp_menu ext s = menu_loop ext no_submenu Fmp ''HELP_ME'' (init_controller Fmp s)"

definition menu :: "'d ext \<Rightarrow> controller_kind \<Rightarrow> 'd controller \<Rightarrow> (menu_exit \<times> 'd controller) option" where
  "menu ext k s = menu_loop ext (fmp_menu ext) k ''HELP_ME'' (init_controller k s)"

section \<open>The due-diligence reaction menu of the Discord bot\<close>

text \<open>
  The keycap emoji of the menu, as the UTF-8 bytes of digit, U+FE0F, U+20E3, and the face
  U+1F60B of the timeout notice.
\<close>

definition keycap :: "char \<Rightarrow> string" where
  "keycap d = [d, CHR 0xEF, CHR 0xB8, CHR 0x8F, CHR 0xE2, CHR 0x83, CHR 0xA3]"

definition emoji_list :: "string list" where
  "emoji_list = map keycap ''0123456''"

definition face_savoring :: string where
  "face_savoring = [CHR 0xF0, CHR 0x9F, CHR 0x98, CHR 0x8B]"

datatype user = Bot | Member nat

record embed =
  title :: string
  description :: string

text \<open>
  What the coroutine acts on: the reactions the bot holds on its menu message (none when
  the message has just been sent), the embeds sent to the channel, the debug lines
  printed, and the commands started (each with its ticker).
\<close>

record discord =
  bot_reactions :: "string list"
  sent :: "embed list"
  printed :: "string list"
  started :: "(string \<times> string) list"

datatype failure = TimeoutError | OtherError

text \<open>
  \<^verbatim>\<open>gst_bot.wait_for("reaction_add", timeout=cfg.MENU_TIMEOUT, check=check)\<close>: \<open>events\<close>
  are the reactions (emoji and user) that arrive before the timeout, in order; the first
  one that passes \<^verbatim>\<open>check\<close> is returned, and \<open>None\<close> is \<^verbatim>\<open>asyncio.TimeoutError\<close>.
\<close>

definition check :: "user \<Rightarrow> string \<times> user \<Rightarrow> bool" where
  "check author e = (snd e = author \<and> fst e \<in> set emoji_list)"

definition wait_for :: "user \<Rightarrow> (string \<times> user) list \<Rightarrow> (string \<times> user) option" where
  "wait_for author events = List.find (check author) events"

definition menu_text :: "string \<Rightarrow> string" where
  "menu_text t =
     keycap CHR ''0'' @ '' !stocks.dd.analyst '' @ t @ [CHR 0x0A]
     @ keycap CHR ''1'' @ '' !stocks.dd.pt '' @ t @ '' <RAW> <DATE_START>'' @ [CHR 0x0A]
     @ keycap CHR ''2'' @ '' !stocks.dd.est '' @ t @ [CHR 0x0A]
     @ keycap CHR ''3'' @ '' !stocks.dd.sec '' @ t @ [CHR 0x0A]
     @ keycap CHR ''4'' @ '' !stocks.dd.supplier '' @ t @ [CHR 0x0A]
     @ keycap CHR ''5'' @ '' !stocks.dd.customer '' @ t @ [CHR 0x0A]
     @ keycap CHR ''6'' @ '' !stocks.dd.arktrades '' @ t"

definition timeout_embed :: embed where
  "timeout_embed =
     \<lparr>title = ''TIMEOUT Stocks: Due Diligence (DD) Menu'',
      description = ''Error timeout - you snooze you lose! '' @ face_savoring\<rparr>"

definition add_reactions :: "string list \<Rightarrow> discord \<Rightarrow> discord" where
  "add_reactions es d = foldl (\<lambda>d e. d\<lparr>bot_reactions := bot_reactions d @ [e]\<rparr>) d es"

definition remove_reactions :: "string list \<Rightarrow> discord \<Rightarrow> discord" where
  "remove_reactions es d = foldl (\<lambda>d e. d\<lparr>bot_reactions := remove1 e (bot_reactions d)\<rparr>) d es"

text \<open>The command bound to each emoji and the digit printed in debug mode.\<close>

definition reaction_commands :: "(string \<times> string \<times> string) list" where
  "reaction_commands =
     [(keycap CHR ''0'', ''analyst'', ''0''), (keycap CHR ''1'', ''pt'', ''1''),
      (keycap CHR ''2'', ''est'', ''2''), (keycap CHR ''3'', ''sec'', ''3''),
      (keycap CHR ''4'', ''supplier'', ''4''), (keycap CHR ''5'', ''customer'', ''5''),
      (keycap CHR ''6'', ''arktrades'', ''6'')]"

text \<open>
  The commands themselves belong to other modules; \<open>cmds name ticker\<close> tells whether the
  command raises. The chain of \<^verbatim>\<open>if/elif\<close> on the emoji of the reaction:
\<close>

definition on_reaction ::
  "bool \<Rightarrow> (string \<Rightarrow> string \<Rightarrow> failure option) \<Rightarrow> string \<Rightarrow> string \<Rightarrow> discord
   \<Rightarrow> failure option \<times> discord" where
  "on_reaction debug cmds emoji t d =
     (case map_of reaction_commands emoji of
        None \<Rightarrow> (None, d)
      | Some (name, digit) \<Rightarrow>
          (let d1 = (if debug then d\<lparr>printed := printed d @ [''Reaction selected: '' @ digit]\<rparr> else d)
           in (cmds name t, d1\<lparr>started := started d1 @ [(name, t)]\<rparr>)))"

text \<open>
  \<^verbatim>\<open>due_diligence\<close>: the result is \<open>None\<close> when the coroutine returns and the exception when
  one leaves it. (For an empty ticker the source builds an error embed and then overwrites
  it without sending it, so nothing of it is left to model.) The handler of
  \<^verbatim>\<open>asyncio.TimeoutError\<close> also catches that exception when a command raises it.
\<close>

definition due_diligence ::
  "bool \<Rightarrow> (string \<Rightarrow> string \<Rightarrow> failure option) \<Rightarrow> (string \<times> user) list \<Rightarrow> user \<Rightarrow> string
   \<Rightarrow> discord \<Rightarrow> failure option \<times> discord" where
  "due_diligence debug cmds events author t d =
     (let d1 = (if debug then d\<lparr>printed := printed d @ [''!stocks.dd'']\<rparr> else d);
          d2 = d1\<lparr>sent := sent d1 @ [\<lparr>title = ''Stocks: Due Diligence (DD) Menu'',
                                        description = menu_text t\<rparr>],
                  bot_reactions := []\<rparr>;
          d3 = add_reactions emoji_list d2;
          on_timeout = (\<lambda>d. (None, (remove_reactions emoji_list d)
                                 \<lparr>sent := sent (remove_reactions emoji_list d) @ [timeout_embed]\<rparr>))
      in case wait_for author events of
           None \<Rightarrow> on_timeout d3
         | Some (emoji, u) \<Rightarrow>
             (case on_reaction debug cmds emoji t d3 of
                (None, d4) \<Rightarrow> (None, remove_reactions emoji_list d4)
              | (Some TimeoutError, d4) \<Rightarrow> on_timeout d4
              | (Some OtherError, d4) \<Rightarrow> (Some OtherError, d4)))"

section \<open>Values used in the examples\<close>

text \<open>
  A controller with the ticker AAPL loaded, an empty queue and a silent terminal; a
  collaborator that always returns and leaves the controller as it is, and one that always
  ends in \<^verbatim>\<open>SystemExit\<close>; a channel in which nothing has happened yet and bot commands that
  never raise.
\<close>

definition idle :: "unit controller" where
  "idle = \<lparr>ticker = ''AAPL'', start = ''2021-01-04'', interval = ''1440min'', suffix = [],
           target = [], stock = (), queue = [], stdin = [], out = []\<rparr>"

definition returns_always :: "unit ext" where
  "returns_always k cmd other_args s = (False, s)"

definition exits_always :: "unit ext" where
  "exits_always k cmd other_args s = (True, s)"

definition fresh_channel :: discord where
  "fresh_channel = \<lparr>bot_reactions = [], sent = [], printed = [], started = []\<rparr>"

definition no_failure :: "string \<Rightarrow> string \<Rightarrow> failure option" where
  "no_failure name t = None"

section \<open>The reset queue as the specification words it\<close>

text \<open>
  The specification's reading of \<^verbatim>\<open>call_reset\<close>, to be compared with the method: one
  \<open>quit\<close> per level, \<open>reset\<close>, \<open>stocks\<close>, the \<open>load\<close> of the current ticker when there is
  one, then the controller's own menu name.
\<close>

fun menu_name :: "controller_kind \<Rightarrow> string" where
  "menu_name Fa = ''fa''"
| "menu_name Fmp = ''fmp''"
| "menu_name Qa = ''qa''"
| "menu_name Pred = ''pred''"

definition spec_reset_queue :: "controller_kind \<Rightarrow> 'd controller \<Rightarrow> string list" where
  "spec_reset_queue k s =
     replicate (nesting_depth k) ''quit'' @ [''reset'', ''stocks'']
     @ (if ticker s \<noteq> [] then [''load '' @ ticker s] else []) @ [menu_name k] @ queue s"

section \<open>Plain commands\<close>

text \<open>
  A plain command name: no alias, no universal command and no menu (every name of
  \<^verbatim>\<open>CHOICES_COMMANDS\<close> is one).
\<close>

definition plain_command :: "string \<Rightarrow> bool" where
  "plain_command cmd =
     (resolve_alias cmd = cmd
      \<and> list_all (\<lambda>u. cmd \<noteq> u) [''cls'', ''home'', ''help'', ''quit'', ''exit'', ''reset'', ''fmp''])"

section \<open>Properties\<close>

subsection \<open>Auxiliary facts\<close>

lemma menu_chain_simps:
  "menu_chain Fa = [''stocks'', ''fa'']" "menu_chain Fmp = [''stocks'', ''fa'', ''fmp'']"
  "menu_chain Qa = [''stocks'', ''qa'']" "menu_chain Pred = [''stocks'', ''pred'']"
  by (simp_all add: menu_chain_def)

lemma nesting_depth_simps:
  "nesting_depth Fa = 2" "nesting_depth Fmp = 3" "nesting_depth Qa = 2" "nesting_depth Pred = 2"
  by (simp_all add: nesting_depth_def menu_chain_simps)

lemma parse_home: "parse_known_args (CHOICES k) [''home''] = Some (''home'', [])"
  by (cases k) (simp_all add: parse_known_args_def CHOICES_def CHOICES_universal_def
      parse_optional_def consume_positionals_def match_positional_def get_values_def)

lemma call_home_queue:
  "call_home k s = s\<lparr>queue := replicate (nesting_depth k) ''quit'' @ queue s\<rparr>"
  by (cases k) (simp_all add: nesting_depth_simps queue_insert0_def numeral_2_eq_2 numeral_3_eq_3)

lemma quit_head_turn:
  assumes "queue s = h # t" "is_quit_token h"
  shows "menu_turn ext sub k a s = Some (Leave (Return t) (if k = Qa then emit (Print []) s else s))"
  using assms by (cases t) (simp_all add: menu_turn_def Let_def)

lemma quit_head_loop:
  assumes "queue s = h # t" "is_quit_token h"
  shows "menu_loop ext sub k a s = Some (Return t, if k = Qa then emit (Print []) s else s)"
  by (subst menu_loop.simps) (simp add: quit_head_turn [OF assms])

text \<open>The loop of \<^verbatim>\<open>switch\<close> over the reversed tail puts the segments in front in their order.\<close>

lemma enqueue_fold_state:
  "foldl (\<lambda>s cmd. if cmd \<noteq> [] then queue_insert0 cmd s else s) s (rev xs)
     = s\<lparr>queue := filter (\<lambda>c. c \<noteq> []) xs @ queue s\<rparr>"
  by (induction xs) (simp_all add: queue_insert0_def)

lemma enqueue_actions_queue:
  "enqueue_actions actions s = s\<lparr>queue := filter (\<lambda>c. c \<noteq> []) (tl actions) @ queue s\<rparr>"
  by (simp add: enqueue_actions_def enqueue_fold_state)

subsection \<open>Recovery from an unrecognized command\<close>

lemma parse_laod: "parse_known_args (CHOICES Fa) (str_split_ws ''laod AAPL'') = None"
  by code_simp

lemma similar_laod: "similar_cmd Fa ''laod AAPL'' = [''load'']"
  by code_simp

lemma candidate_laod: "candidate_input ''load'' ''laod AAPL'' = ''load AAPL''"
  by (simp add: candidate_input_def)

lemma process_laod:
  "process ext sub Fa ''laod AAPL'' s
   = Some (Again ''laod AAPL''
       (s\<lparr>queue := ''laod AAPL'' # queue s,
          out := out s @ [Write (not_found_message Fa ''laod AAPL''),
                          Print (replacing_message ''laod AAPL'')]\<rparr>))"
  by (simp add: process_def switch_def execute_def parse_laod recover_def similar_laod
      candidate_laod replace_by_def emit_def queue_insert0_def Let_def)

lemma turn_laod:
  assumes "queue s = ''laod AAPL'' # rest"
  shows "menu_turn ext sub Fa a s
   = Some (Again ''laod AAPL''
       (s\<lparr>out := out s @ [Write (not_found_message Fa ''laod AAPL''),
                          Print (replacing_message ''laod AAPL'')]\<rparr>))"
  using assms by (simp add: menu_turn_def is_quit_token_def process_laod Let_def)

text \<open>
  With the misspelt line at the head of its queue the fa loop cannot return: each turn
  takes the line out and puts the same line back.
\<close>

lemma loop_laod_aux:
  assumes "menu_loop ext sub k a s = Some y"
  shows "\<not> (k = Fa \<and> queue s \<noteq> [] \<and> hd (queue s) = ''laod AAPL'')"
  apply (rule menu_loop.raw_induct
      [where P = "\<lambda>ext sub k a s y. \<not> (k = Fa \<and> queue s \<noteq> [] \<and> hd (queue s) = ''laod AAPL'')",
        OF _ assms])
  subgoal premises prems for f ext sub k a s y
  proof
    assume h: "k = Fa \<and> queue s \<noteq> [] \<and> hd (queue s) = ''laod AAPL''"
    then obtain rest where q: "queue s = ''laod AAPL'' # rest" by (cases "queue s") auto
    let ?s' = "s\<lparr>out := out s @ [Write (not_found_message Fa ''laod AAPL''),
                          Print (replacing_message ''laod AAPL'')]\<rparr>"
    from prems(2) h turn_laod [OF q, of ext sub a]
    have "f ext sub Fa ''laod AAPL'' ?s' = Some y" by simp
    from prems(1) [OF this] q show False by simp
  qed
  done

lemma loop_laod:
  assumes "queue s = ''laod AAPL'' # rest"
  shows "menu_loop ext sub Fa a s = None"
proof (cases "menu_loop ext sub Fa a s")
  case None
  then show ?thesis .
next
  case (Some y)
  from loop_laod_aux [OF Some] assms show ?thesis by simp
qed

text \<open>The qa loop, for comparison, puts the corrected line back and names it in the notice.\<close>

lemma qa_typo_is_corrected:
  "process returns_always no_submenu Qa ''laod AAPL'' idle
   = Some (Again ''load AAPL''
       (idle\<lparr>queue := [''load AAPL''],
             out := [Write (not_found_message Qa ''laod AAPL''),
                     Print (replacing_message ''load AAPL'')]\<rparr>))"
  by code_simp

text \<open>
  In general: whenever the fa, fmp or pred loop replaces, it puts the input itself back;
  the qa loop puts the candidate line back.
\<close>

lemma recover_puts_input_back:
  assumes "k \<noteq> Qa" "similar_cmd k an_input = m # ms"
    and "(if CHR '' '' \<in> set an_input then candidate_input m an_input else m) \<noteq> an_input"
  shows "recover k an_input s =
     Again an_input
       (s\<lparr>queue := an_input # queue s,
          out := out s @ [Write (not_found_message k an_input), Print (replacing_message an_input)]\<rparr>)"
  using assms by (simp add: recover_def Let_def replace_by_def emit_def queue_insert0_def)

lemma qa_recover_corrects:
  assumes "similar_cmd Qa an_input = m # ms" "CHR '' '' \<in> set an_input"
    and "candidate_input m an_input \<noteq> an_input"
  shows "recover Qa an_input s =
     Again (candidate_input m an_input)
       (s\<lparr>queue := candidate_input m an_input # queue s,
          out := out s @ [Write (not_found_message Qa an_input),
                          Print (replacing_message (candidate_input m an_input))]\<rparr>)"
  using assms by (simp add: recover_def Let_def replace_by_def emit_def queue_insert0_def)

text \<open>The fmp and pred loops put the misspelt line back as the fa loop does.\<close>

lemma fmp_pred_typo_is_put_back:
  "process returns_always no_submenu Fmp ''qoute'' idle
   = Some (Again ''qoute''
       (idle\<lparr>queue := [''qoute''],
             out := [Write (not_found_message Fmp ''qoute''),
                     Print (replacing_message ''qoute'')]\<rparr>))"
  "process returns_always no_submenu Pred ''laod AAPL'' idle
   = Some (Again ''laod AAPL''
       (idle\<lparr>queue := [''laod AAPL''],
             out := [Write (not_found_message Pred ''laod AAPL''),
                     Print (replacing_message ''laod AAPL'')]\<rparr>))"
  by code_simp+

text \<open>
  C1. When a misspelt command has a close match, the corrected line (\<open>load AAPL\<close> for the
  input \<open>laod AAPL\<close>) is to be put back in front of the queue and named in the notice.
  The fa loop finds the match and computes the corrected line, but the line it puts back,
  and names in the notice, is the input itself; the turn leaves the queue as it found
  it, and the loop never returns.
\<close>

theorem fa_typo_is_put_back:
  "similar_cmd Fa ''laod AAPL'' = [''load'']
   \<and> candidate_input ''load'' ''laod AAPL'' = ''load AAPL''
   \<and> menu_turn ext sub Fa a (idle\<lparr>queue := [''laod AAPL'']\<rparr>)
     = Some (Again ''laod AAPL''
         (idle\<lparr>queue := [''laod AAPL''],
               out := [Write (not_found_message Fa ''laod AAPL''),
                       Print (replacing_message ''laod AAPL'')]\<rparr>))
   \<and> menu_loop ext sub Fa a (idle\<lparr>queue := [''laod AAPL'']\<rparr>) = None"
proof -
  have "queue (idle\<lparr>queue := [''laod AAPL'']\<rparr>) = ''laod AAPL'' # []" by simp
  from loop_laod [OF this, of ext sub a] show ?thesis
    by (simp add: similar_laod candidate_laod menu_turn_def is_quit_token_def process_laod
        idle_def Let_def)
qed

text \<open>
  C2. When the head of a non-empty queue is \<open>q\<close>, \<open>..\<close> or \<open>quit\<close>, the turn ends the
  menu at once and returns the queue without its head (the empty list when the token
  stood alone); nothing is dispatched, only qa prints a blank line. The caller takes the
  returned queue over: \<^verbatim>\<open>call_fmp\<close> of fa continues with it.
\<close>

theorem menu_returns_on_quit_head:
  assumes "queue s = h # t" "h \<in> set [''q'', ''..'', ''quit'']"
  shows "menu_turn ext sub k a s = Some (Leave (Return t) (if k = Qa then emit (Print []) s else s))
   \<and> menu_loop ext sub k a s = Some (Return t, if k = Qa then emit (Print []) s else s)
   \<and> call_fmp (fmp_menu ext) s = Some (Returned, s\<lparr>queue := t\<rparr>)"
proof -
  from assms(2) have q: "is_quit_token h" by (auto simp: is_quit_token_def)
  have i: "queue (init_controller Fmp s) = h # t" using assms(1) by (simp add: init_controller_def)
  have "fmp_menu ext s = Some (Return t, init_controller Fmp s)"
    unfolding fmp_menu_def using quit_head_loop [OF i q, of ext no_submenu Fmp] by simp
  then have "call_fmp (fmp_menu ext) s = Some (Returned, s\<lparr>queue := t\<rparr>)"
    by (simp add: call_fmp_def init_controller_def)
  with quit_head_turn [OF assms(1) q] quit_head_loop [OF assms(1) q] show ?thesis by simp
qed

theorem menu_returns_on_quit_head_witness:
  "menu_loop returns_always no_submenu Fa ''HELP_ME'' (idle\<lparr>queue := [''quit'']\<rparr>)
     = Some (Return [], idle\<lparr>queue := [''quit'']\<rparr>)
   \<and> menu_loop returns_always no_submenu Qa ''HELP_ME'' (idle\<lparr>queue := [''..'', ''load TSLA'']\<rparr>)
     = Some (Return [''load TSLA''], idle\<lparr>queue := [''..'', ''load TSLA''], out := [Print []]\<rparr>)"
  using menu_returns_on_quit_head [of "idle\<lparr>queue := [''quit'']\<rparr>" "''quit''" "[]"
      returns_always no_submenu Fa "''HELP_ME''"]
    menu_returns_on_quit_head [of "idle\<lparr>queue := [''..'', ''load TSLA'']\<rparr>" "''..''"
      "[''load TSLA'']" returns_always no_submenu Qa "''HELP_ME''"]
  by (simp add: idle_def emit_def)

lemma commands_plain_each:
  "list_all plain_command (CHOICES_COMMANDS Fa)" "list_all plain_command (CHOICES_COMMANDS Fmp)"
  "list_all plain_command (CHOICES_COMMANDS Qa)" "list_all plain_command (CHOICES_COMMANDS Pred)"
  by code_simp+

lemma commands_plain: "list_all plain_command (CHOICES_COMMANDS k)"
  by (cases k; hypsubst; rule commands_plain_each)

lemma commands_not_universal:
  assumes "cmd \<in> set (CHOICES_COMMANDS k)"
  shows "resolve_alias cmd = cmd
     \<and> cmd \<notin> set [''cls'', ''home'', ''help'', ''quit'', ''exit'', ''reset'', ''fmp'']"
proof -
  from commands_plain [of k] assms have "plain_command cmd" by (simp add: list_all_iff)
  then show ?thesis by (auto simp: plain_command_def)
qed

text \<open>The handler of such a command leaves the queue alone, however it ends.\<close>

lemma dispatch_command_queue:
  assumes "cmd \<in> set (CHOICES_COMMANDS k)"
  shows "\<exists>sig s'. dispatch ext sub k (resolve_alias cmd) args s = Some (sig, s') \<and> queue s' = queue s"
  using commands_not_universal [OF assms]
  by (cases "ext k cmd args s") (auto simp: dispatch_def call_leaf_def)

text \<open>
  C3. For a line with a \<open>/\<close> and a non-empty first segment, \<^verbatim>\<open>switch\<close> executes the first
  segment now, on a queue that holds the other non-empty segments in front, in the order
  they were written; when the first segment is one of the menu's own commands, that is
  the queue \<^verbatim>\<open>switch\<close> leaves behind, so the segments run next, in that order.
\<close>

theorem switch_navigation_order:
  assumes "CHR ''/'' \<in> set an_input" "hd (str_split CHR ''/'' an_input) \<noteq> []"
  shows "switch ext sub k an_input s =
     execute ext sub k (hd (str_split CHR ''/'' an_input))
       (s\<lparr>queue := filter (\<lambda>c. c \<noteq> []) (tl (str_split CHR ''/'' an_input)) @ queue s\<rparr>)
   \<and> (\<forall>cmd args.
        parse_known_args (CHOICES k) (str_split_ws (hd (str_split CHR ''/'' an_input)))
          = Some (cmd, args) \<and> cmd \<in> set (CHOICES_COMMANDS k)
        \<longrightarrow> (\<exists>sig s'. switch ext sub k an_input s = Some (sig, s')
              \<and> queue s' = filter (\<lambda>c. c \<noteq> []) (tl (str_split CHR ''/'' an_input)) @ queue s))"
proof -
  let ?s = "s\<lparr>queue := filter (\<lambda>c. c \<noteq> []) (tl (str_split CHR ''/'' an_input)) @ queue s\<rparr>"
  have 1: "switch ext sub k an_input s
           = execute ext sub k (hd (str_split CHR ''/'' an_input)) ?s"
    using assms by (auto simp: switch_def Let_def enqueue_actions_queue)
  have 2: "\<exists>sig s'. switch ext sub k an_input s = Some (sig, s') \<and> queue s' = queue ?s"
    if "parse_known_args (CHOICES k) (str_split_ws (hd (str_split CHR ''/'' an_input)))
          = Some (cmd, args)" "cmd \<in> set (CHOICES_COMMANDS k)" for cmd args
    using dispatch_command_queue [OF that(2), of ext sub args ?s] that(1)
    by (simp add: 1 execute_def)
  from 1 2 show ?thesis by simp
qed

lemma exec_income:
  "execute returns_always no_submenu Fa ''income'' (idle\<lparr>queue := [''balance'', ''cash'']\<rparr>)
   = Some (Returned, idle\<lparr>queue := [''balance'', ''cash''], out := [Leaf ''income'' []]\<rparr>)"
  by code_simp

lemma parse_income:
  "parse_known_args (CHOICES Fa) (str_split_ws ''income'') = Some (''income'', [])"
  by code_simp

theorem switch_navigation_order_witness:
  "CHR ''/'' \<in> set ''income/balance/cash'' \<and> hd (str_split CHR ''/'' ''income/balance/cash'') \<noteq> []
   \<and> ''income'' \<in> set (CHOICES_COMMANDS Fa)
   \<and> switch returns_always no_submenu Fa ''income/balance/cash'' idle
       = Some (Returned, idle\<lparr>queue := [''balance'', ''cash''], out := [Leaf ''income'' []]\<rparr>)"
proof -
  have a: "CHR ''/'' \<in> set ''income/balance/cash''" by simp
  have b: "hd (str_split CHR ''/'' ''income/balance/cash'') \<noteq> []" by simp
  have c: "''income'' \<in> set (CHOICES_COMMANDS Fa)" by simp
  have q: "queue idle = []" by (simp add: idle_def)
  show ?thesis
    using switch_navigation_order [OF a b, of returns_always no_submenu Fa idle] a b c
    by (simp add: exec_income q)
qed

text \<open>The whole loop on such a line: the three commands run in the order written.\<close>

lemma navigation_drain_example:
  "menu_loop returns_always no_submenu Fa ''HELP_ME''
     (idle\<lparr>queue := [''income/balance/cash'', ''quit'']\<rparr>)
   = Some (Return [], idle\<lparr>queue := [''quit''],
        out := [Leaf ''income'' [], Echo ''balance'', Leaf ''balance'' [],
                Echo ''cash'', Leaf ''cash'' []]\<rparr>)"
  by code_simp

text \<open>
  C4. As the specification states it, \<^verbatim>\<open>call_reset\<close> ends the prepended tokens with
  the controller's own menu name. That holds for fa, qa and pred; fmp inserts \<open>fa\<close> before
  \<open>fmp\<close>, since fmp is entered through fa. Amended: \<^verbatim>\<open>call_reset\<close> prepends one \<open>quit\<close> per
  nesting level, then \<open>reset\<close>, then \<open>stocks\<close>, then \<open>load t\<close> for the current ticker \<open>t\<close>
  (left out when no ticker is loaded), then the menu names that lead from \<open>stocks\<close> to
  the controller (\<open>fa\<close>; \<open>fa\<close>, \<open>fmp\<close>; \<open>qa\<close>; \<open>pred\<close>), and changes nothing else.
\<close>

theorem call_reset_queue:
  "call_reset k s =
     s\<lparr>queue := replicate (nesting_depth k) ''quit'' @ [''reset'', hd (menu_chain k)]
                 @ (if ticker s \<noteq> [] then [''load '' @ ticker s] else [])
                 @ tl (menu_chain k) @ queue s\<rparr>
   \<and> tl (menu_chain Fa) = [''fa''] \<and> tl (menu_chain Fmp) = [''fa'', ''fmp'']
   \<and> tl (menu_chain Qa) = [''qa''] \<and> tl (menu_chain Pred) = [''pred'']
   \<and> hd (menu_chain k) = ''stocks''"
  by (cases k) (simp_all add: nesting_depth_simps menu_chain_simps queue_insert0_def
      insert_load_def numeral_2_eq_2 numeral_3_eq_3)

theorem call_reset_queue_witness:
  "queue (call_reset Fmp idle) =
     [''quit'', ''quit'', ''quit'', ''reset'', ''stocks'', ''load AAPL'', ''fa'', ''fmp'']
   \<and> queue (call_reset Fa (idle\<lparr>ticker := []\<rparr>)) = [''quit'', ''quit'', ''reset'', ''stocks'', ''fa'']"
  using call_reset_queue [of Fmp idle] call_reset_queue [of Fa "idle\<lparr>ticker := []\<rparr>"]
  by (simp add: idle_def nesting_depth_simps menu_chain_simps numeral_2_eq_2 numeral_3_eq_3)

text \<open>The queue as the specification states it is not the queue fmp builds.\<close>

theorem call_reset_fmp_counterexample:
  "queue (call_reset Fmp idle) \<noteq> spec_reset_queue Fmp idle"
  by (simp add: spec_reset_queue_def idle_def nesting_depth_simps queue_insert0_def
      insert_load_def)

text \<open>
  C5. \<^verbatim>\<open>call_home\<close> puts as many \<open>quit\<close> tokens in front of the queue as the menu is deep
  (two for fa, qa and pred, three for fmp) and changes nothing else in the controller; the
  line \<open>home\<close> given to \<^verbatim>\<open>switch\<close> does exactly that.
\<close>

theorem call_home_unwinds:
  "call_home k s = s\<lparr>queue := replicate (nesting_depth k) ''quit'' @ queue s\<rparr>
   \<and> switch ext sub k ''home'' s = Some (Returned, call_home k s)
   \<and> nesting_depth Fa = 2 \<and> nesting_depth Qa = 2 \<and> nesting_depth Pred = 2
   \<and> nesting_depth Fmp = 3"
  by (simp add: call_home_queue nesting_depth_simps switch_def execute_def str_split_ws_def
      isspace_def parse_home resolve_alias_def dispatch_def)

text \<open>
  C6. For a line with a \<open>/\<close> and an empty first segment, \<^verbatim>\<open>switch\<close> runs \<open>home\<close> in this
  turn: the queue then holds the \<open>quit\<close> tokens of \<^verbatim>\<open>call_home\<close>, after them the other
  non-empty segments in their order, after them what was queued before. The loop then
  leaves the menu and hands the segments, behind the remaining \<open>quit\<close> tokens, to its
  caller, so they are executed once the root is reached.
\<close>

theorem switch_absolute_path:
  assumes "CHR ''/'' \<in> set an_input" "hd (str_split CHR ''/'' an_input) = []"
  shows "switch ext sub k an_input s =
     Some (Returned,
       s\<lparr>queue := replicate (nesting_depth k) ''quit''
                   @ filter (\<lambda>c. c \<noteq> []) (tl (str_split CHR ''/'' an_input)) @ queue s\<rparr>)
   \<and> menu_loop ext sub k an_input
       (s\<lparr>queue := replicate (nesting_depth k) ''quit''
                   @ filter (\<lambda>c. c \<noteq> []) (tl (str_split CHR ''/'' an_input)) @ queue s\<rparr>)
     = Some (Return (replicate (nesting_depth k - 1) ''quit''
                   @ filter (\<lambda>c. c \<noteq> []) (tl (str_split CHR ''/'' an_input)) @ queue s),
             if k = Qa
             then emit (Print []) (s\<lparr>queue := replicate (nesting_depth k) ''quit''
                   @ filter (\<lambda>c. c \<noteq> []) (tl (str_split CHR ''/'' an_input)) @ queue s\<rparr>)
             else s\<lparr>queue := replicate (nesting_depth k) ''quit''
                   @ filter (\<lambda>c. c \<noteq> []) (tl (str_split CHR ''/'' an_input)) @ queue s\<rparr>)"
proof -
  let ?segs = "filter (\<lambda>c. c \<noteq> []) (tl (str_split CHR ''/'' an_input))"
  let ?s' = "s\<lparr>queue := replicate (nesting_depth k) ''quit'' @ ?segs @ queue s\<rparr>"
  have e: "execute ext sub k ''home'' (s\<lparr>queue := ?segs @ queue s\<rparr>) = Some (Returned, ?s')"
    by (simp add: execute_def str_split_ws_def isspace_def parse_home resolve_alias_def
        dispatch_def call_home_queue)
  have 1: "switch ext sub k an_input s = Some (Returned, ?s')"
    using assms e by (auto simp: switch_def Let_def enqueue_actions_queue)
  obtain n where n: "nesting_depth k = Suc n" by (cases k) (simp_all add: nesting_depth_simps)
  have q: "queue ?s' = ''quit'' # (replicate (nesting_depth k - 1) ''quit'' @ ?segs @ queue s)"
    by (simp add: n)
  have "is_quit_token ''quit''" by (simp add: is_quit_token_def)
  from quit_head_loop [OF q this, of ext sub k an_input] 1 show ?thesis by simp
qed

theorem switch_absolute_path_witness:
  "CHR ''/'' \<in> set ''/x'' \<and> hd (str_split CHR ''/'' ''/x'') = []
   \<and> switch returns_always no_submenu Fa ''/x'' idle
       = Some (Returned, idle\<lparr>queue := [''quit'', ''quit'', ''x'']\<rparr>)
   \<and> menu_loop returns_always no_submenu Fa ''/x'' (idle\<lparr>queue := [''quit'', ''quit'', ''x'']\<rparr>)
       = Some (Return [''quit'', ''x''], idle\<lparr>queue := [''quit'', ''quit'', ''x'']\<rparr>)"
proof -
  have a: "CHR ''/'' \<in> set ''/x''" by simp
  have b: "hd (str_split CHR ''/'' ''/x'') = []" by simp
  show ?thesis
    using switch_absolute_path [OF a b, of returns_always no_submenu Fa idle] a b
    by (simp add: idle_def nesting_depth_simps numeral_2_eq_2)
qed

lemma similar_load: "similar_cmd Fa ''load -x'' = [''load'']"
  by code_simp





text \<open>
  A line that is its own candidate starts with a legal command name, which the parser of
  the controller accepts; the branch is then entered only when the handler of that
  command ends in \<^verbatim>\<open>SystemExit\<close>. With a handler that returns there is no recovery at all;
  with one that exits, the turn as a whole runs as follows.
\<close>

lemma returning_handler_no_recovery:
  "process returns_always no_submenu Qa ''load'' idle
   = Some (Again ''load'' (idle\<lparr>out := [Leaf ''load'' []]\<rparr>))"
  "process returns_always no_submenu Fa ''load -x'' idle
   = Some (Again ''load -x'' (idle\<lparr>out := [Leaf ''load'' [''-x'']]\<rparr>))"
  by code_simp+

lemma degenerate_match_discards:
  assumes "switch ext sub k an_input s = Some (SystemExit, s')"
    and "similar_cmd k an_input = m # ms"
    and "(if CHR '' '' \<in> set an_input then candidate_input m an_input else m) = an_input"
    and "k \<noteq> Qa \<or> CHR '' '' \<in> set an_input"
  shows "process ext sub k an_input s =
     Some (Again [] (s'\<lparr>queue := [],
        out := out s' @ [Write (not_found_message k an_input), Print [CHR 0x0A]]\<rparr>))
   \<and> menu_turn ext sub k []
       (s'\<lparr>queue := [], out := out s' @ [Write (not_found_message k an_input), Print [CHR 0x0A]]\<rparr>)
     = (case stdin s' of
          [] \<Rightarrow> Some (Leave Eof
                  (s'\<lparr>queue := [],
                      out := out s' @ [Write (not_found_message k an_input), Print [CHR 0x0A], Prompt]\<rparr>))
        | line # lines \<Rightarrow>
            process ext sub k line
              (s'\<lparr>queue := [],
                  out := out s' @ [Write (not_found_message k an_input), Print [CHR 0x0A], Prompt],
                  stdin := lines\<rparr>))"
proof -
  have "recover k an_input s' = Again [] (s'\<lparr>queue := [],
        out := out s' @ [Write (not_found_message k an_input), Print [CHR 0x0A]]\<rparr>)"
    using assms(2-4) by (auto simp: recover_def Let_def discard_def emit_def split: if_splits)
  then have 1: "process ext sub k an_input s =
     Some (Again [] (s'\<lparr>queue := [],
        out := out s' @ [Write (not_found_message k an_input), Print [CHR 0x0A]]\<rparr>))"
    using assms(1) by (simp add: process_def)
  show ?thesis
    by (simp add: 1 menu_turn_def emit_def Let_def split: list.splits)
qed

lemma switch_load_exits:
  "switch exits_always no_submenu Fa ''load -x'' idle
   = Some (SystemExit, idle\<lparr>out := [Leaf ''load'' [''-x'']]\<rparr>)"
  by code_simp

lemma degenerate_match_discards_example:
  "process exits_always no_submenu Fa ''load -x'' idle
     = Some (Again [] (idle\<lparr>queue := [],
          out := [Leaf ''load'' [''-x''], Write (not_found_message Fa ''load -x''), Print [CHR 0x0A]]\<rparr>))
   \<and> process exits_always no_submenu Qa ''load -x'' idle
     = Some (Again [] (idle\<lparr>queue := [],
          out := [Leaf ''load'' [''-x''], Write (not_found_message Qa ''load -x''), Print [CHR 0x0A]]\<rparr>))"
proof -
  have c: "(if CHR '' '' \<in> set ''load -x'' then candidate_input ''load'' ''load -x'' else ''load'')
           = ''load -x''"
    by (simp add: candidate_input_def)
  have d: "Fa \<noteq> Qa \<or> CHR '' '' \<in> set ''load -x''" by simp
  have q: "process exits_always no_submenu Qa ''load -x'' idle
     = Some (Again [] (idle\<lparr>queue := [],
          out := [Leaf ''load'' [''-x''], Write (not_found_message Qa ''load -x''), Print [CHR 0x0A]]\<rparr>))"
    by code_simp
  show ?thesis
    using degenerate_match_discards [OF switch_load_exits similar_load c d] q
    by (simp add: idle_def)
qed

text \<open>
  C8. Redirecting the aliases twice gives the same name as redirecting them once: \<open>..\<close>
  and \<open>q\<close> go to \<open>quit\<close>, \<open>?\<close> and \<open>h\<close> to \<open>help\<close>, \<open>r\<close> to \<open>reset\<close>, the three targets
  stay as they are, and so does every name that is not an alias.
\<close>

theorem resolve_alias_idempotent:
  "resolve_alias (resolve_alias cmd) = resolve_alias cmd
   \<and> resolve_alias ''..'' = ''quit'' \<and> resolve_alias ''q'' = ''quit''
   \<and> resolve_alias ''?'' = ''help'' \<and> resolve_alias ''h'' = ''help''
   \<and> resolve_alias ''r'' = ''reset''
   \<and> resolve_alias ''quit'' = ''quit'' \<and> resolve_alias ''help'' = ''help''
   \<and> resolve_alias ''reset'' = ''reset''
   \<and> (cmd \<notin> set [''..'', ''q'', ''?'', ''h'', ''r''] \<longrightarrow> resolve_alias cmd = cmd)"
  by (simp add: resolve_alias_def)

theorem resolve_alias_idempotent_witness:
  "''load'' \<notin> set [''..'', ''q'', ''?'', ''h'', ''r'']
   \<and> resolve_alias (resolve_alias ''load'') = resolve_alias ''load''
   \<and> resolve_alias ''load'' = ''load''"
  using resolve_alias_idempotent [of "''load''"] by simp

text \<open>
  C9. When no reaction that passes \<^verbatim>\<open>check\<close> arrives before the timeout, the coroutine
  of the due-diligence menu returns (the timeout does not leave it), none of the
  reactions it added is left on its message, the embed sent last is the timeout notice,
  and no command has been started.
\<close>

lemma reactions_cleared:
  "bot_reactions (remove_reactions emoji_list (add_reactions emoji_list (d\<lparr>bot_reactions := []\<rparr>))) = []"
  by (simp add: remove_reactions_def add_reactions_def emoji_list_def keycap_def)

lemma remove_reactions_frame:
  "sent (remove_reactions es d) = sent d \<and> printed (remove_reactions es d) = printed d
   \<and> started (remove_reactions es d) = started d"
  unfolding remove_reactions_def by (induction es arbitrary: d) simp_all

lemma add_reactions_frame:
  "sent (add_reactions es d) = sent d \<and> printed (add_reactions es d) = printed d
   \<and> started (add_reactions es d) = started d"
  unfolding add_reactions_def by (induction es arbitrary: d) simp_all

theorem due_diligence_timeout:
  assumes "\<forall>e \<in> set events. \<not> check author e"
  shows "fst (due_diligence debug cmds events author t d) = None
   \<and> bot_reactions (snd (due_diligence debug cmds events author t d)) = []
   \<and> sent (snd (due_diligence debug cmds events author t d))
       = sent d @ [\<lparr>title = ''Stocks: Due Diligence (DD) Menu'', description = menu_text t\<rparr>,
                   timeout_embed]
   \<and> started (snd (due_diligence debug cmds events author t d)) = started d"
proof -
  have w: "wait_for author events = None"
    using assms by (simp add: wait_for_def find_None_iff)
  show ?thesis
    using reactions_cleared [of "d\<lparr>printed := printed d @ [''!stocks.dd''],
        sent := sent d @ [\<lparr>title = ''Stocks: Due Diligence (DD) Menu'', description = menu_text t\<rparr>]\<rparr>"]
      reactions_cleared [of "d\<lparr>
        sent := sent d @ [\<lparr>title = ''Stocks: Due Diligence (DD) Menu'', description = menu_text t\<rparr>]\<rparr>"]
    by (simp add: due_diligence_def w Let_def remove_reactions_frame add_reactions_frame)
qed

theorem due_diligence_timeout_witness:
  "\<not> check (Member 1) (keycap CHR ''3'', Member 7) \<and> \<not> check (Member 1) (''x'', Member 1)
   \<and> fst (due_diligence False no_failure [(keycap CHR ''3'', Member 7), (''x'', Member 1)]
        (Member 1) ''AAPL'' fresh_channel) = None
   \<and> bot_reactions (snd (due_diligence False no_failure
        [(keycap CHR ''3'', Member 7), (''x'', Member 1)] (Member 1) ''AAPL'' fresh_channel)) = []
   \<and> sent (snd (due_diligence False no_failure
        [(keycap CHR ''3'', Member 7), (''x'', Member 1)] (Member 1) ''AAPL'' fresh_channel))
      = [\<lparr>title = ''Stocks: Due Diligence (DD) Menu'', description = menu_text ''AAPL''\<rparr>,
         timeout_embed]"
proof -
  have h: "\<forall>e \<in> set [(keycap CHR ''3'', Member 7), (''x'', Member 1)]. \<not> check (Member 1) e"
    by (simp add: check_def emoji_list_def keycap_def)
  from due_diligence_timeout [OF h, of False no_failure "''AAPL''" fresh_channel] h
  show ?thesis by (simp add: fresh_channel_def)
qed

text \<open>A reaction of the author within the time starts its command instead.\<close>

lemma due_diligence_reaction_example:
  "due_diligence False no_failure [(keycap CHR ''3'', Member 7), (keycap CHR ''2'', Member 1)]
        (Member 1) ''AAPL'' fresh_channel
   = (None, \<lparr>bot_reactions = [],
        sent = [\<lparr>title = ''Stocks: Due Diligence (DD) Menu'', description = menu_text ''AAPL''\<rparr>],
        printed = [], started = [(''est'', ''AAPL'')]\<rparr>)"
  by code_simp

text \<open>
  C10. On the empty line \<^verbatim>\<open>switch\<close> of every controller returns at once: it prints a blank
  line and leaves the queue and every attribute of the controller as they were; no
  command is parsed and no handler is called.
\<close>

theorem switch_empty_input:
  "switch ext sub k [] s = Some (Returned, s\<lparr>out := out s @ [Print []]\<rparr>)"
  by (simp add: switch_def emit_def)

end
